theory Spec2Isabelle
  imports Main "HOL-Library.Sublist"
begin

section \<open>Python values and exceptions\<close>

text \<open>
  A Python \<open>str\<close> is a sequence of Unicode code points (each below \<open>0x110000\<close>), and a
  \<open>bytes\<close> object a sequence of numbers below 256. \<open>lit\<close> turns a literal of the source into
  its code points.
\<close>

type_synonym str = "nat list"
type_synonym bytes = "nat list"

definition lit :: "string \<Rightarrow> str" where
  "lit s = map of_char s"

text \<open>
  The exceptions the entity layer raises or lets through. The messages of the source are
  kept; the messages of the interpreter's own errors are written without their quotation
  marks.
\<close>

datatype error =
    Exception string
  | ValueError string
  | TypeError string
  | ValidationError string
  | UnicodeEncodeError nat
  | UnicodeDecodeError nat

text \<open>
  Columns are nullable: an attribute of an \<open>Integer\<close> column holds \<open>None\<close> or an int, one of
  a \<open>String\<close> column \<open>None\<close> or a str. Python 3 orders ints, and refuses to order \<open>None\<close>
  against an int.
\<close>

fun py_lt :: "int option \<Rightarrow> int \<Rightarrow> error + bool" where
  "py_lt None b = Inl (TypeError ''< not supported between instances of NoneType and int'')"
| "py_lt (Some a) b = Inr (a < b)"

fun py_gt :: "int option \<Rightarrow> int \<Rightarrow> error + bool" where
  "py_gt None b = Inl (TypeError ''> not supported between instances of NoneType and int'')"
| "py_gt (Some a) b = Inr (a > b)"

fun py_le :: "int option \<Rightarrow> int \<Rightarrow> error + bool" where
  "py_le None b = Inl (TypeError ''<= not supported between instances of NoneType and int'')"
| "py_le (Some a) b = Inr (a \<le> b)"

text \<open>Truthiness of a nullable string: \<open>None\<close> and the empty string are false.\<close>

fun truthy :: "str option \<Rightarrow> bool" where
  "truthy None = False"
| "truthy (Some s) = (s \<noteq> [])"

text \<open>\<open>sub in s\<close>: substring test on a str, a TypeError on \<open>None\<close>.\<close>

fun py_in :: "str \<Rightarrow> str option \<Rightarrow> error + bool" where
  "py_in sub None = Inl (TypeError ''argument of type NoneType is not iterable'')"
| "py_in sub (Some s) = Inr (sublist sub s)"

section \<open>Dates\<close>

record datetime =
  dt_year :: nat
  dt_month :: nat
  dt_day :: nat
  dt_hour :: nat
  dt_minute :: nat
  dt_second :: nat
  dt_microsecond :: nat

record date =
  d_year :: nat
  d_month :: nat
  d_day :: nat

section \<open>Entities\<close>

text \<open>
  One record per mapped class of \<open>models.py\<close>, one field per column, named
  \<open>Class_column\<close>. The column \<open>_password_hash\<close> of \<open>User\<close> is the field
  \<open>User__password_hash\<close>.
\<close>

record User =
  User_id :: "int option"
  User_username :: "str option"
  User_email :: "str option"
  User__password_hash :: "str option"
  User_role :: "str option"
  User_registration_date :: "datetime option"
  User_image :: "str option"

record Farmer =
  Farmer_id :: "int option"
  Farmer_farm_name :: "str option"
  Farmer_location :: "str option"
  Farmer_contact :: "str option"
  Farmer_user_id :: "int option"

record Reviews =
  Reviews_id :: "int option"
  Reviews_customer_id :: "int option"
  Reviews_product_id :: "int option"
  Reviews_rating :: "int option"
  Reviews_comments :: "str option"
  Reviews_review_date :: "date option"

record Product =
  Product_id :: "int option"
  Product_name :: "str option"
  Product_price :: "int option"
  Product_description :: "str option"
  Product_quantity_available :: "int option"
  Product_category :: "str option"
  Product_image :: "str option"
  Product_farmer_id :: "int option"

record Order =
  Order_id :: "int option"
  Order_customer_id :: "int option"
  Order_product_id :: "int option"
  Order_order_date :: "datetime option"
  Order_quantity_ordered :: "int option"
  Order_total_price :: "int option"
  Order_order_status :: "str option"

record Payment =
  Payment_id :: "int option"
  Payment_order_id :: "int option"
  Payment_payment_amount :: "int option"
  Payment_payment_date :: "date option"
  Payment_payment_method :: "str option"
  Payment_status :: "str option"
  Payment_transaction_id :: "int option"

record ChatMessage =
  ChatMessage_id :: "int option"
  ChatMessage_sender_id :: "int option"
  ChatMessage_receiver_id :: "int option"
  ChatMessage_message_text :: "str option"
  ChatMessage_timestamp :: "datetime option"

section \<open>Validators and attribute assignment\<close>

text \<open>
  A method decorated with \<open>@validates(column)\<close> runs on every assignment to the column:
  what it returns is stored, and an exception it raises leaves the object as it was. A
  column with no such method stores whatever is assigned.
\<close>

definition validates ::
  "('v \<Rightarrow> error + 'v) \<Rightarrow> ('v \<Rightarrow> 'r \<Rightarrow> 'r) \<Rightarrow> 'v \<Rightarrow> 'r \<Rightarrow> error + 'r" where
  "validates validator store v self =
     (case validator v of Inl e \<Rightarrow> Inl e | Inr v' \<Rightarrow> Inr (store v' self))"

definition unvalidated :: "('v \<Rightarrow> 'r \<Rightarrow> 'r) \<Rightarrow> 'v \<Rightarrow> 'r \<Rightarrow> error + 'r" where
  "unvalidated store v self = Inr (store v self)"

subsection \<open>Reviews.rating\<close>

definition validate_rating :: "string \<Rightarrow> int option \<Rightarrow> error + int option" where
  "validate_rating key rating =
     (case py_lt rating 1 of
        Inl e \<Rightarrow> Inl e
      | Inr too_low \<Rightarrow>
          if too_low then Inl (ValueError ''Rating must be between 1 and 5'')
          else (case py_gt rating 5 of
                  Inl e \<Rightarrow> Inl e
                | Inr too_high \<Rightarrow>
                    if too_high then Inl (ValueError ''Rating must be between 1 and 5'')
                    else Inr rating))"

definition Reviews_set_rating :: "int option \<Rightarrow> Reviews \<Rightarrow> error + Reviews" where
  "Reviews_set_rating =
     validates (validate_rating ''rating'') (\<lambda>v r. r\<lparr>Reviews_rating := v\<rparr>)"

subsection \<open>Order.quantity_ordered\<close>

definition validate_quantity_ordered :: "string \<Rightarrow> int option \<Rightarrow> error + int option" where
  "validate_quantity_ordered key quantity_ordered =
     (case py_le quantity_ordered 0 of
        Inl e \<Rightarrow> Inl e
      | Inr bad \<Rightarrow>
          if bad then Inl (ValueError ''Quantity ordered must be greater than 0'')
          else Inr quantity_ordered)"

definition Order_set_quantity_ordered :: "int option \<Rightarrow> Order \<Rightarrow> error + Order" where
  "Order_set_quantity_ordered =
     validates (validate_quantity_ordered ''quantity_ordered'')
       (\<lambda>v r. r\<lparr>Order_quantity_ordered := v\<rparr>)"

subsection \<open>Payment.payment_amount\<close>

definition validate_payment_amount :: "string \<Rightarrow> int option \<Rightarrow> error + int option" where
  "validate_payment_amount key payment_amount =
     (case py_lt payment_amount 0 of
        Inl e \<Rightarrow> Inl e
      | Inr bad \<Rightarrow>
          if bad then Inl (ValueError ''Payment amount cannot be negative'')
          else Inr payment_amount)"

definition Payment_set_payment_amount :: "int option \<Rightarrow> Payment \<Rightarrow> error + Payment" where
  "Payment_set_payment_amount =
     validates (validate_payment_amount ''payment_amount'')
       (\<lambda>v r. r\<lparr>Payment_payment_amount := v\<rparr>)"

subsection \<open>User.email\<close>

definition validate_email :: "string \<Rightarrow> str option \<Rightarrow> error + str option" where
  "validate_email key email =
     (if \<not> truthy email then Inl (ValueError ''Invalid email address format'')
      else (case py_in (lit ''@'') email of
              Inl e \<Rightarrow> Inl e
            | Inr found \<Rightarrow>
                if \<not> found then Inl (ValueError ''Invalid email address format'')
                else Inr email))"

definition User_set_email :: "str option \<Rightarrow> User \<Rightarrow> error + User" where
  "User_set_email = validates (validate_email ''email'') (\<lambda>v u. u\<lparr>User_email := v\<rparr>)"

subsection \<open>User.role\<close>

text \<open>No method of \<open>User\<close> is registered with \<open>@validates("role")\<close>.\<close>

definition User_set_role :: "str option \<Rightarrow> User \<Rightarrow> error + User" where
  "User_set_role = unvalidated (\<lambda>v u. u\<lparr>User_role := v\<rparr>)"

text \<open>
  The values of a structured input payload, and the payload as a dictionary from str keys.
  \<open>x not in [a, b]\<close> compares with \<open>==\<close>, which on these values is equality.
\<close>

datatype pyval = PNone | PInt int | PStr str

definition dq :: char where
  "dq = CHR 0x22"

definition invalid_role_message :: string where
  "invalid_role_message =
     ''Invalid role. Must be either '' @ [dq] @ ''Farmer'' @ [dq] @ '' or '' @ [dq]
       @ ''customer'' @ [dq]"

definition validate_schema :: "(str \<rightharpoonup> pyval) \<Rightarrow> error + unit" where
  "validate_schema data =
     (case data (lit ''role'') of
        None \<Rightarrow> Inr ()
      | Some role \<Rightarrow>
          if role \<notin> set [PStr (lit ''Farmer''), PStr (lit ''customer'')]
          then Inl (ValidationError invalid_role_message)
          else Inr ())"

section \<open>Password handling\<close>

subsection \<open>UTF-8\<close>

text \<open>
  \<open>str.encode("utf-8")\<close> refuses a surrogate code point with a UnicodeEncodeError at its
  position; every other code point becomes one to four bytes.
\<close>

definition is_surrogate :: "nat \<Rightarrow> bool" where
  "is_surrogate c \<longleftrightarrow> 0xD800 \<le> c \<and> c < 0xE000"

definition utf8_char :: "nat \<Rightarrow> bytes" where
  "utf8_char c =
     (if c < 0x80 then [c]
      else if c < 0x800 then [0xC0 + c div 64, 0x80 + c mod 64]
      else if c < 0x10000 then [0xE0 + c div 4096, 0x80 + c div 64 mod 64, 0x80 + c mod 64]
      else [0xF0 + c div 262144, 0x80 + c div 4096 mod 64, 0x80 + c div 64 mod 64,
            0x80 + c mod 64])"

fun encode_from :: "nat \<Rightarrow> str \<Rightarrow> error + bytes" where
  "encode_from i [] = Inr []"
| "encode_from i (c # cs) =
     (if is_surrogate c then Inl (UnicodeEncodeError i)
      else (case encode_from (Suc i) cs of
              Inl e \<Rightarrow> Inl e
            | Inr bs \<Rightarrow> Inr (utf8_char c @ bs)))"

definition encode_utf8 :: "str \<Rightarrow> error + bytes" where
  "encode_utf8 s = encode_from 0 s"

text \<open>
  \<open>bytes.decode("utf-8")\<close> accepts the well-formed sequences only (no overlong form, no
  surrogate, nothing above \<open>0x10FFFF\<close>) and raises a UnicodeDecodeError at the position of
  the lead byte otherwise.
\<close>

definition cont :: "nat \<Rightarrow> bool" where
  "cont b \<longleftrightarrow> 0x80 \<le> b \<and> b < 0xC0"

definition second_of_three :: "nat \<Rightarrow> nat \<Rightarrow> bool" where
  "second_of_three b b1 \<longleftrightarrow>
     (if b = 0xE0 then 0xA0 \<le> b1 \<and> b1 < 0xC0
      else if b = 0xED then 0x80 \<le> b1 \<and> b1 < 0xA0
      else cont b1)"

definition second_of_four :: "nat \<Rightarrow> nat \<Rightarrow> bool" where
  "second_of_four b b1 \<longleftrightarrow>
     (if b = 0xF0 then 0x90 \<le> b1 \<and> b1 < 0xC0
      else if b = 0xF4 then 0x80 \<le> b1 \<and> b1 < 0x90
      else cont b1)"

text \<open>
  One character: from the lead byte \<open>b\<close> at position \<open>i\<close> and the bytes after it, the code
  point and the number of continuation bytes read.
\<close>

definition decode_one :: "nat \<Rightarrow> nat \<Rightarrow> bytes \<Rightarrow> error + nat \<times> nat" where
  "decode_one i b bs =
     (if b < 0x80 then Inr (b, 0)
      else if 0xC2 \<le> b \<and> b < 0xE0 then
        (case bs of
           b1 # r \<Rightarrow>
             if cont b1 then Inr ((b - 0xC0) * 64 + (b1 - 0x80), 1)
             else Inl (UnicodeDecodeError i)
         | _ \<Rightarrow> Inl (UnicodeDecodeError i))
      else if 0xE0 \<le> b \<and> b < 0xF0 then
        (case bs of
           b1 # b2 # r \<Rightarrow>
             if second_of_three b b1 \<and> cont b2
             then Inr ((b - 0xE0) * 4096 + (b1 - 0x80) * 64 + (b2 - 0x80), 2)
             else Inl (UnicodeDecodeError i)
         | _ \<Rightarrow> Inl (UnicodeDecodeError i))
      else if 0xF0 \<le> b \<and> b < 0xF5 then
        (case bs of
           b1 # b2 # b3 # r \<Rightarrow>
             if second_of_four b b1 \<and> cont b2 \<and> cont b3
             then Inr ((b - 0xF0) * 262144 + (b1 - 0x80) * 4096 + (b2 - 0x80) * 64
                       + (b3 - 0x80), 3)
             else Inl (UnicodeDecodeError i)
         | _ \<Rightarrow> Inl (UnicodeDecodeError i))
      else Inl (UnicodeDecodeError i))"

fun decode_from :: "nat \<Rightarrow> bytes \<Rightarrow> error + str" where
  "decode_from i [] = Inr []"
| "decode_from i (b # bs) =
     (case decode_one i b bs of
        Inl e \<Rightarrow> Inl e
      | Inr (c, k) \<Rightarrow>
          (case decode_from (i + Suc k) (drop k bs) of
             Inl e \<Rightarrow> Inl e
           | Inr s \<Rightarrow> Inr (c # s)))"

definition decode_utf8 :: "bytes \<Rightarrow> error + str" where
  "decode_utf8 bs = decode_from 0 bs"

subsection \<open>The hashing utility\<close>

text \<open>
  \<open>models.py\<close> imports the hashing utility \<open>bcrypt\<close> from the module \<open>config\<close>, which is
  not among the source files. It is a parameter of the model, and nothing is assumed of
  it: \<open>generate_password_hash\<close> takes the salt it draws and the password's bytes,
  \<open>check_password_hash\<close> the stored hash (the text of a \<open>String\<close> column, or \<open>None\<close>) and
  the candidate's bytes, and either may raise.
\<close>

record bcrypt =
  generate_password_hash :: "bytes \<Rightarrow> bytes \<Rightarrow> error + bytes"
  check_password_hash :: "str option \<Rightarrow> bytes \<Rightarrow> error + bool"

subsection \<open>The password property and authentication\<close>

text \<open>The getter of the hybrid property \<open>password_hash\<close>.\<close>

definition password_hash :: "User \<Rightarrow> error + str" where
  "password_hash self = Inl (Exception ''Password hashes may not be viewed.'')"

text \<open>Its setter; \<open>salt\<close> is the salt the utility draws for this call.\<close>

definition password_hash_setter :: "bcrypt \<Rightarrow> bytes \<Rightarrow> str \<Rightarrow> User \<Rightarrow> error + User" where
  "password_hash_setter lib salt password self =
     (case encode_utf8 password of
        Inl e \<Rightarrow> Inl e
      | Inr pw \<Rightarrow>
          (case generate_password_hash lib salt pw of
             Inl e \<Rightarrow> Inl e
           | Inr hashed \<Rightarrow>
               (case decode_utf8 hashed of
                  Inl e \<Rightarrow> Inl e
                | Inr s \<Rightarrow> Inr (self\<lparr>User__password_hash := Some s\<rparr>))))"

definition authenticate :: "bcrypt \<Rightarrow> User \<Rightarrow> str \<Rightarrow> error + bool" where
  "authenticate lib self password =
     (case encode_utf8 password of
        Inl e \<Rightarrow> Inl e
      | Inr pw \<Rightarrow> check_password_hash lib (User__password_hash self) pw)"

section \<open>Serialization of an order\<close>

text \<open>
  \<open>strftime\<close> on the directives the source uses, as CPython renders them through the C
  library (glibc): \<open>%Y\<close> is the year in decimal with no padding, so four digits from the
  year 1000 on and fewer below it; \<open>%m\<close>, \<open>%d\<close>, \<open>%H\<close>, \<open>%M\<close> and \<open>%S\<close> are decimal, padded
  with a zero to two digits; \<open>%%\<close> is a percent sign; every other character of the format
  stands for itself. Other directives are not modelled.
\<close>

definition digit :: "nat \<Rightarrow> nat" where
  "digit n = of_char CHR ''0'' + n mod 10"

fun decimal :: "nat \<Rightarrow> str" where
  "decimal n = (if n < 10 then [digit n] else decimal (n div 10) @ [digit n])"

declare decimal.simps [simp del]

definition pad2 :: "nat \<Rightarrow> str" where
  "pad2 n = (if n < 10 then digit 0 # decimal n else decimal n)"

definition directive :: "nat \<Rightarrow> datetime \<Rightarrow> str" where
  "directive c d =
     (if c = of_char CHR ''Y'' then decimal (dt_year d)
      else if c = of_char CHR ''m'' then pad2 (dt_month d)
      else if c = of_char CHR ''d'' then pad2 (dt_day d)
      else if c = of_char CHR ''H'' then pad2 (dt_hour d)
      else if c = of_char CHR ''M'' then pad2 (dt_minute d)
      else if c = of_char CHR ''S'' then pad2 (dt_second d)
      else if c = of_char CHR ''%'' then [c]
      else [of_char CHR ''%'', c])"

fun strftime :: "str \<Rightarrow> datetime \<Rightarrow> str" where
  "strftime [] d = []"
| "strftime [c] d = [c]"
| "strftime (c # c' # fmt) d =
     (if c = of_char CHR ''%'' then directive c' d @ strftime fmt d
      else c # strftime (c' # fmt) d)"

definition int_or_none :: "int option \<Rightarrow> pyval" where
  "int_or_none v = (case v of None \<Rightarrow> PNone | Some i \<Rightarrow> PInt i)"

definition str_or_none :: "str option \<Rightarrow> pyval" where
  "str_or_none v = (case v of None \<Rightarrow> PNone | Some s \<Rightarrow> PStr s)"

text \<open>A datetime object is always true, so \<open>if self.order_date\<close> asks whether it is set.\<close>

definition serialize :: "Order \<Rightarrow> (str \<rightharpoonup> pyval)" where
  "serialize self =
     [lit ''id'' \<mapsto> int_or_none (Order_id self),
      lit ''order_date'' \<mapsto>
        (case Order_order_date self of
           Some order_date \<Rightarrow> PStr (strftime (lit ''%Y-%m-%d %H:%M:%S'') order_date)
         | None \<Rightarrow> PNone),
      lit ''quantity_ordered'' \<mapsto> int_or_none (Order_quantity_ordered self),
      lit ''total_price'' \<mapsto> int_or_none (Order_total_price self),
      lit ''order_status'' \<mapsto> str_or_none (Order_order_status self)]"

text \<open>Three orders: one placed in 2024, one in the year 999, one with no date.\<close>

definition order_of_2024 :: Order where
  "order_of_2024 =
     \<lparr>Order_id = Some 1, Order_customer_id = Some 7, Order_product_id = Some 3,
      Order_order_date =
        Some \<lparr>dt_year = 2024, dt_month = 3, dt_day = 11, dt_hour = 11, dt_minute = 38,
              dt_second = 3, dt_microsecond = 229813\<rparr>,
      Order_quantity_ordered = Some 2, Order_total_price = Some 20,
      Order_order_status = Some (lit ''pending'')\<rparr>"

definition order_of_999 :: Order where
  "order_of_999 =
     order_of_2024\<lparr>Order_order_date :=
        Some \<lparr>dt_year = 999, dt_month = 1, dt_day = 2, dt_hour = 3, dt_minute = 4,
              dt_second = 5, dt_microsecond = 0\<rparr>\<rparr>"

definition undated_order :: Order where
  "undated_order = order_of_2024\<lparr>Order_order_date := None\<rparr>"

section \<open>The migration\<close>

text \<open>
  The operations \<open>upgrade\<close> and \<open>downgrade\<close> issue, in the order in which they issue
  them: \<open>op.create_table\<close> with the table's name, columns and constraints, and
  \<open>op.drop_table\<close> with a name.
\<close>

datatype sa_type = sa_Integer | sa_String | sa_DateTime | sa_Date

datatype sa_item =
    Column string sa_type bool
  | PrimaryKeyConstraint "string list"
  | UniqueConstraint "string list"
  | ForeignKeyConstraint "string list" "string list" "string option"

datatype operation =
    create_table string "sa_item list"
  | drop_table string

definition upgrade :: "operation list" where
  "upgrade =
    [create_table ''user''
       [Column ''id'' sa_Integer False,
        Column ''username'' sa_String True,
        Column ''email'' sa_String True,
        Column ''_password_hash'' sa_String True,
        Column ''role'' sa_String True,
        Column ''registration_date'' sa_DateTime True,
        Column ''image'' sa_String True,
        PrimaryKeyConstraint [''id''],
        UniqueConstraint [''email''],
        UniqueConstraint [''username'']],
     create_table ''chat_message''
       [Column ''id'' sa_Integer False,
        Column ''sender_id'' sa_Integer False,
        Column ''receiver_id'' sa_Integer False,
        Column ''message_text'' sa_String True,
        Column ''timestamp'' sa_DateTime True,
        ForeignKeyConstraint [''receiver_id''] [''user.id''] (Some ''fk_receiver_id''),
        ForeignKeyConstraint [''sender_id''] [''user.id''] (Some ''fk_sender_id''),
        PrimaryKeyConstraint [''id'']],
     create_table ''farmer''
       [Column ''id'' sa_Integer False,
        Column ''farm_name'' sa_String True,
        Column ''location'' sa_String True,
        Column ''contact'' sa_String True,
        Column ''user_id'' sa_Integer True,
        ForeignKeyConstraint [''user_id''] [''user.id''] None,
        PrimaryKeyConstraint [''id''],
        UniqueConstraint [''farm_name''],
        UniqueConstraint [''user_id'']],
     create_table ''product''
       [Column ''id'' sa_Integer False,
        Column ''name'' sa_String True,
        Column ''price'' sa_Integer True,
        Column ''description'' sa_String True,
        Column ''quantity_available'' sa_Integer True,
        Column ''category'' sa_String True,
        Column ''image'' sa_String True,
        Column ''farmer_id'' sa_Integer True,
        ForeignKeyConstraint [''farmer_id''] [''farmer.id''] None,
        PrimaryKeyConstraint [''id'']],
     create_table ''order''
       [Column ''id'' sa_Integer False,
        Column ''customer_id'' sa_Integer True,
        Column ''product_id'' sa_Integer True,
        Column ''order_date'' sa_DateTime True,
        Column ''quantity_ordered'' sa_Integer True,
        Column ''total_price'' sa_Integer True,
        Column ''order_status'' sa_String True,
        ForeignKeyConstraint [''customer_id''] [''user.id''] None,
        ForeignKeyConstraint [''product_id''] [''product.id''] None,
        PrimaryKeyConstraint [''id'']],
     create_table ''reviews''
       [Column ''id'' sa_Integer False,
        Column ''customer_id'' sa_Integer True,
        Column ''product_id'' sa_Integer True,
        Column ''rating'' sa_Integer True,
        Column ''comments'' sa_String True,
        Column ''review_date'' sa_Date True,
        ForeignKeyConstraint [''customer_id''] [''user.id''] None,
        ForeignKeyConstraint [''product_id''] [''product.id''] None,
        PrimaryKeyConstraint [''id'']],
     create_table ''association_order_product''
       [Column ''order_id'' sa_Integer True,
        Column ''product_id'' sa_Integer True,
        ForeignKeyConstraint [''order_id''] [''order.id''] None,
        ForeignKeyConstraint [''product_id''] [''product.id''] None],
     create_table ''association_product_review''
       [Column ''product_id'' sa_Integer True,
        Column ''review_id'' sa_Integer True,
        ForeignKeyConstraint [''product_id''] [''product.id''] None,
        ForeignKeyConstraint [''review_id''] [''reviews.id''] None],
     create_table ''payment''
       [Column ''id'' sa_Integer False,
        Column ''order_id'' sa_Integer True,
        Column ''payment_amount'' sa_Integer True,
        Column ''payment_date'' sa_Date True,
        Column ''payment_method'' sa_String True,
        Column ''status'' sa_String True,
        Column ''transaction_id'' sa_Integer True,
        ForeignKeyConstraint [''order_id''] [''order.id''] None,
        PrimaryKeyConstraint [''id'']]]"

definition downgrade :: "operation list" where
  "downgrade =
    [drop_table ''payment'',
     drop_table ''association_product_review'',
     drop_table ''association_order_product'',
     drop_table ''reviews'',
     drop_table ''order'',
     drop_table ''product'',
     drop_table ''farmer'',
     drop_table ''chat_message'',
     drop_table ''user'']"

text \<open>The tables an operation list creates and the tables it drops, in order.\<close>

fun created :: "operation list \<Rightarrow> string list" where
  "created [] = []"
| "created (create_table name items # ops) = name # created ops"
| "created (drop_table name # ops) = created ops"

fun dropped :: "operation list \<Rightarrow> string list" where
  "dropped [] = []"
| "dropped (create_table name items # ops) = dropped ops"
| "dropped (drop_table name # ops) = name # dropped ops"

section \<open>Deleting a user\<close>

text \<open>
  The relationships \<open>User\<close> declares. The cascade option is the list of its names
  (\<open>cascade="all, delete"\<close> is \<open>[all, delete]\<close>); a relationship that gives none has the
  default, \<open>save-update, merge\<close>.
\<close>

record relationship =
  rel_target :: string
  rel_foreign_key :: string
  rel_backref :: string
  rel_uselist :: bool
  rel_lazy :: string
  rel_cascade :: "string list"

definition default_cascade :: "string list" where
  "default_cascade = [''save-update'', ''merge'']"

definition User_farmer :: relationship where
  "User_farmer =
     \<lparr>rel_target = ''Farmer'', rel_foreign_key = ''Farmer.user_id'', rel_backref = ''user'',
      rel_uselist = False, rel_lazy = ''select'', rel_cascade = default_cascade\<rparr>"

definition User_orders :: relationship where
  "User_orders =
     \<lparr>rel_target = ''Order'', rel_foreign_key = ''Order.customer_id'', rel_backref = ''user'',
      rel_uselist = True, rel_lazy = ''select'', rel_cascade = default_cascade\<rparr>"

definition User_reviews :: relationship where
  "User_reviews =
     \<lparr>rel_target = ''Reviews'', rel_foreign_key = ''Reviews.customer_id'',
      rel_backref = ''user'', rel_uselist = True, rel_lazy = ''dynamic'',
      rel_cascade = default_cascade\<rparr>"

definition User_sent_messages :: relationship where
  "User_sent_messages =
     \<lparr>rel_target = ''ChatMessage'', rel_foreign_key = ''ChatMessage.sender_id'',
      rel_backref = ''sender'', rel_uselist = True, rel_lazy = ''dynamic'',
      rel_cascade = [''all'', ''delete'']\<rparr>"

definition User_received_messages :: relationship where
  "User_received_messages =
     \<lparr>rel_target = ''ChatMessage'', rel_foreign_key = ''ChatMessage.receiver_id'',
      rel_backref = ''receiver'', rel_uselist = True, rel_lazy = ''dynamic'',
      rel_cascade = [''all'', ''delete'']\<rparr>"

text \<open>The rows of the nine tables.\<close>

record database =
  db_user :: "User list"
  db_chat_message :: "ChatMessage list"
  db_farmer :: "Farmer list"
  db_product :: "Product list"
  db_order :: "Order list"
  db_reviews :: "Reviews list"
  db_association_order_product :: "(int option \<times> int option) list"
  db_association_product_review :: "(int option \<times> int option) list"
  db_payment :: "Payment list"

text \<open>
  Modelled from the spec: the storage layer's deletion of a parent object, which is not
  among the source files. "Deleting a User cascades deletion of their sent/received
  messages only (other relations are not cascaded and are left to the storage layer's
  default behavior)": the children of a relationship are deleted with the parent when the
  relationship's cascade contains \<open>delete\<close> (\<open>all\<close> contains it); otherwise the default
  applies, which keeps the child and sets its foreign key to \<open>None\<close>.
\<close>

definition cascades_delete :: "relationship \<Rightarrow> bool" where
  "cascades_delete rel \<longleftrightarrow> ''delete'' \<in> set (rel_cascade rel) \<or> ''all'' \<in> set (rel_cascade rel)"

definition delete_children ::
  "relationship \<Rightarrow> ('r \<Rightarrow> int option) \<Rightarrow> ('r \<Rightarrow> 'r) \<Rightarrow> int \<Rightarrow> 'r list \<Rightarrow> 'r list" where
  "delete_children rel fk nullify parent rows =
     (if cascades_delete rel then filter (\<lambda>r. fk r \<noteq> Some parent) rows
      else map (\<lambda>r. if fk r = Some parent then nullify r else r) rows)"

definition delete_User :: "int \<Rightarrow> database \<Rightarrow> database" where
  "delete_User uid db =
     db\<lparr>db_user := filter (\<lambda>u. User_id u \<noteq> Some uid) (db_user db),
        db_farmer :=
          delete_children User_farmer Farmer_user_id (\<lambda>r. r\<lparr>Farmer_user_id := None\<rparr>) uid
            (db_farmer db),
        db_order :=
          delete_children User_orders Order_customer_id (\<lambda>r. r\<lparr>Order_customer_id := None\<rparr>)
            uid (db_order db),
        db_reviews :=
          delete_children User_reviews Reviews_customer_id
            (\<lambda>r. r\<lparr>Reviews_customer_id := None\<rparr>) uid (db_reviews db),
        db_chat_message :=
          delete_children User_received_messages ChatMessage_receiver_id
            (\<lambda>r. r\<lparr>ChatMessage_receiver_id := None\<rparr>) uid
            (delete_children User_sent_messages ChatMessage_sender_id
               (\<lambda>r. r\<lparr>ChatMessage_sender_id := None\<rparr>) uid (db_chat_message db))\<rparr>"

section \<open>Properties of the numeric validators\<close>

text \<open>
  C7. For every integer \<open>r\<close> assigned to \<open>Reviews.rating\<close>, the assignment succeeds, and
  stores \<open>r\<close>, exactly when \<open>1 \<le> r \<le> 5\<close>; otherwise it raises the validator's ValueError and
  stores nothing. In particular 0 and 6 raise, 1 and 5 succeed.
\<close>

theorem rating_assignment_iff_in_range:
  "Reviews_set_rating (Some r) self =
     (if 1 \<le> r \<and> r \<le> 5 then Inr (self\<lparr>Reviews_rating := Some r\<rparr>)
      else Inl (ValueError ''Rating must be between 1 and 5''))
   \<and> Reviews_set_rating (Some 0) self = Inl (ValueError ''Rating must be between 1 and 5'')
   \<and> Reviews_set_rating (Some 6) self = Inl (ValueError ''Rating must be between 1 and 5'')
   \<and> Reviews_set_rating (Some 1) self = Inr (self\<lparr>Reviews_rating := Some 1\<rparr>)
   \<and> Reviews_set_rating (Some 5) self = Inr (self\<lparr>Reviews_rating := Some 5\<rparr>)"
  by (simp add: Reviews_set_rating_def validates_def validate_rating_def)

text \<open>
  C9. Assigning \<open>None\<close> to \<open>Reviews.rating\<close>, \<open>Order.quantity_ordered\<close> or
  \<open>Payment.payment_amount\<close> fails in the validator's comparison of \<open>None\<close> with an integer,
  with a TypeError and not with the validator's ValueError.
\<close>

theorem numeric_validators_none_type_error:
  "Reviews_set_rating None r =
     Inl (TypeError ''< not supported between instances of NoneType and int'')
   \<and> Order_set_quantity_ordered None ord =
     Inl (TypeError ''<= not supported between instances of NoneType and int'')
   \<and> Payment_set_payment_amount None p =
     Inl (TypeError ''< not supported between instances of NoneType and int'')
   \<and> (\<forall>msg. Reviews_set_rating None r \<noteq> Inl (ValueError msg))
   \<and> (\<forall>msg. Order_set_quantity_ordered None ord \<noteq> Inl (ValueError msg))
   \<and> (\<forall>msg. Payment_set_payment_amount None p \<noteq> Inl (ValueError msg))"
  by (simp add: Reviews_set_rating_def Order_set_quantity_ordered_def
      Payment_set_payment_amount_def validates_def validate_rating_def
      validate_quantity_ordered_def validate_payment_amount_def)

section \<open>Properties of the email and role checks\<close>

lemma sublist_single: "sublist [x] ys \<longleftrightarrow> x \<in> set ys"
  by (auto simp: sublist_def in_set_conv_decomp)

lemma lit_at: "lit ''@'' = [of_char CHR ''@'']"
  by (simp add: lit_def)

text \<open>
  C3. For every value \<open>v\<close> assigned to \<open>User.email\<close> (\<open>None\<close> or a str), the assignment
  succeeds and stores \<open>v\<close> exactly when \<open>v\<close> is a non-empty string that contains the
  character \<open>@\<close>; otherwise it raises the validator's ValueError.
\<close>

theorem email_assignment_iff_nonempty_with_at:
  "User_set_email v self =
     (if (\<exists>s. v = Some s \<and> s \<noteq> [] \<and> of_char CHR ''@'' \<in> set s)
      then Inr (self\<lparr>User_email := v\<rparr>)
      else Inl (ValueError ''Invalid email address format''))"
  by (cases v)
    (auto simp: User_set_email_def validates_def validate_email_def lit_at sublist_single)

text \<open>
  C4. The role is checked on the payload path only: validating a payload raises exactly
  when the payload has the key \<open>role\<close> with a value other than \<open>Farmer\<close> and \<open>customer\<close>
  (the error is then the ValidationError of the source, and the validation returns
  \<open>None\<close> otherwise), while assigning any value to \<open>User.role\<close> succeeds and stores it.
\<close>

theorem role_checked_on_payload_only:
  "((\<exists>e. validate_schema data = Inl e) \<longleftrightarrow>
      (\<exists>v. data (lit ''role'') = Some v
           \<and> v \<noteq> PStr (lit ''Farmer'') \<and> v \<noteq> PStr (lit ''customer'')))
   \<and> (validate_schema data = Inl (ValidationError invalid_role_message)
        \<or> validate_schema data = Inr ())
   \<and> User_set_role r self = Inr (self\<lparr>User_role := r\<rparr>)"
  by (auto simp: validate_schema_def User_set_role_def unvalidated_def split: option.splits)

section \<open>Properties of the password handling\<close>

text \<open>
  Reading the password property raises on every user, whatever was written before. A
  write that succeeds changes the column \<open>_password_hash\<close> and nothing else, and stores
  there the text of what the utility returned for the salt and the encoded password. What
  the utility returns is not known here.
\<close>

lemma password_hash_raises:
  "password_hash self = Inl (Exception ''Password hashes may not be viewed.'')"
  by (simp add: password_hash_def)

lemma password_hash_setter_stores_utility_output:
  assumes "password_hash_setter lib salt password self = Inr self'"
  shows "\<exists>pw hashed s.
           encode_utf8 password = Inr pw
           \<and> generate_password_hash lib salt pw = Inr hashed
           \<and> decode_utf8 hashed = Inr s
           \<and> self' = self\<lparr>User__password_hash := Some s\<rparr>"
  using assms by (auto simp: password_hash_setter_def split: sum.splits)

lemma encode_utf8_surrogate: "encode_utf8 [0xD800] = Inl (UnicodeEncodeError 0)"
  by (simp add: encode_utf8_def is_surrogate_def)

text \<open>
  C1. The claim has \<open>authenticate(q)\<close> return false for every plaintext \<open>q\<close> other than the
  one written. The str that holds the one code point \<open>U+D800\<close>, a surrogate, is a
  plaintext no write can have stored, since the setter raises on it; on every user and
  with every hashing utility \<open>authenticate\<close> raises a UnicodeEncodeError on it and does not
  return false: \<open>password.encode("utf-8")\<close> fails before the utility is called.
\<close>

theorem authenticate_raises_on_surrogate:
  "authenticate lib self [0xD800] = Inl (UnicodeEncodeError 0)
   \<and> authenticate lib self [0xD800] \<noteq> Inr False
   \<and> password_hash_setter lib salt [0xD800] self = Inl (UnicodeEncodeError 0)"
  by (simp add: authenticate_def password_hash_setter_def encode_utf8_surrogate)

section \<open>Properties of the serialization\<close>

lemma decimal_digit: "n < 10 \<Longrightarrow> decimal n = [digit n]"
  by (simp add: decimal.simps)

lemma decimal_more: "10 \<le> n \<Longrightarrow> decimal n = decimal (n div 10) @ [digit n]"
  by (simp add: decimal.simps)

lemma digit_numeral: "digit n = 48 + n mod 10"
  by (simp add: digit_def)

lemma strftime_layout:
  "strftime (lit ''%Y-%m-%d %H:%M:%S'') d =
     decimal (dt_year d) @ lit ''-'' @ pad2 (dt_month d) @ lit ''-'' @ pad2 (dt_day d)
     @ lit '' '' @ pad2 (dt_hour d) @ lit '':'' @ pad2 (dt_minute d) @ lit '':''
     @ pad2 (dt_second d)"
  by (simp add: lit_def directive_def)

lemma order_date_2024:
  "serialize order_of_2024 (lit ''order_date'') = Some (PStr (lit ''2024-03-11 11:38:03''))"
  by (simp add: serialize_def order_of_2024_def strftime_layout pad2_def decimal_digit
      decimal_more digit_numeral) (simp add: lit_def)

lemma order_date_999:
  "serialize order_of_999 (lit ''order_date'') = Some (PStr (lit ''999-01-02 03:04:05''))"
  by (simp add: serialize_def order_of_999_def order_of_2024_def strftime_layout pad2_def
      decimal_digit decimal_more digit_numeral) (simp add: lit_def)

lemma order_date_unset: "serialize undated_order (lit ''order_date'') = Some PNone"
  by (simp add: serialize_def undated_order_def order_of_2024_def lit_def)

text \<open>
  C8. For every order, \<open>serialize\<close> returns a dictionary with exactly the keys \<open>id\<close>,
  \<open>order_date\<close>, \<open>quantity_ordered\<close>, \<open>total_price\<close> and \<open>order_status\<close>. Under
  \<open>order_date\<close> stands the timestamp formatted by \<open>%Y-%m-%d %H:%M:%S\<close> when it is set, and
  \<open>None\<close> when it is not. The format gives the year in decimal, the month and the day in
  two digits each with dashes between, a space, and the hour, the minute and the second
  in two digits each with colons between: the order of 11 March 2024, 11:38:03 gives
  \<open>2024-03-11 11:38:03\<close>, the one of 2 January 999, 03:04:05 gives \<open>999-01-02 03:04:05\<close>,
  the undated one \<open>None\<close>. The other keys hold the columns of their names. The foreign
  keys \<open>customer_id\<close> and \<open>product_id\<close> are not keys of the result.
\<close>

theorem serialize_exact_keys:
  "dom (serialize self) =
     {lit ''id'', lit ''order_date'', lit ''quantity_ordered'', lit ''total_price'',
      lit ''order_status''}
   \<and> serialize self (lit ''order_date'') =
       Some (case Order_order_date self of
               None \<Rightarrow> PNone
             | Some d \<Rightarrow> PStr (strftime (lit ''%Y-%m-%d %H:%M:%S'') d))
   \<and> (\<forall>d. strftime (lit ''%Y-%m-%d %H:%M:%S'') d =
         decimal (dt_year d) @ lit ''-'' @ pad2 (dt_month d) @ lit ''-'' @ pad2 (dt_day d)
         @ lit '' '' @ pad2 (dt_hour d) @ lit '':'' @ pad2 (dt_minute d) @ lit '':''
         @ pad2 (dt_second d))
   \<and> serialize order_of_2024 (lit ''order_date'') = Some (PStr (lit ''2024-03-11 11:38:03''))
   \<and> serialize order_of_999 (lit ''order_date'') = Some (PStr (lit ''999-01-02 03:04:05''))
   \<and> serialize undated_order (lit ''order_date'') = Some PNone
   \<and> serialize self (lit ''id'') = Some (int_or_none (Order_id self))
   \<and> serialize self (lit ''quantity_ordered'') =
       Some (int_or_none (Order_quantity_ordered self))
   \<and> serialize self (lit ''total_price'') = Some (int_or_none (Order_total_price self))
   \<and> serialize self (lit ''order_status'') = Some (str_or_none (Order_order_status self))
   \<and> serialize self (lit ''customer_id'') = None
   \<and> serialize self (lit ''product_id'') = None"
proof -
  have keys: "dom (serialize self) =
      {lit ''id'', lit ''order_date'', lit ''quantity_ordered'', lit ''total_price'',
       lit ''order_status''}"
    by (auto simp: serialize_def lit_def)
  have vals: "serialize self (lit ''order_date'') =
      Some (case Order_order_date self of
              None \<Rightarrow> PNone
            | Some d \<Rightarrow> PStr (strftime (lit ''%Y-%m-%d %H:%M:%S'') d))"
    "serialize self (lit ''id'') = Some (int_or_none (Order_id self))"
    "serialize self (lit ''quantity_ordered'') =
      Some (int_or_none (Order_quantity_ordered self))"
    "serialize self (lit ''total_price'') = Some (int_or_none (Order_total_price self))"
    "serialize self (lit ''order_status'') = Some (str_or_none (Order_order_status self))"
    "serialize self (lit ''customer_id'') = None"
    "serialize self (lit ''product_id'') = None"
    by (simp_all add: serialize_def lit_def split: option.splits)
  from keys vals strftime_layout order_date_2024 order_date_999 order_date_unset
  show ?thesis
    by blast
qed

section \<open>Properties of the migration\<close>

text \<open>
  C5. \<open>upgrade\<close> creates nine tables, in the order user, chat_message, farmer, product,
  order, reviews, association_order_product, association_product_review, payment, and
  drops none; \<open>downgrade\<close> drops exactly these nine, in the reverse of that order, and
  creates none.
\<close>

theorem downgrade_reverses_upgrade:
  "created upgrade =
     [''user'', ''chat_message'', ''farmer'', ''product'', ''order'', ''reviews'',
      ''association_order_product'', ''association_product_review'', ''payment'']
   \<and> dropped downgrade = rev (created upgrade)
   \<and> dropped upgrade = [] \<and> created downgrade = []
   \<and> distinct (created upgrade) \<and> length (created upgrade) = 9"
  by (simp add: upgrade_def downgrade_def)

section \<open>Properties of the deletion of a user\<close>

text \<open>
  C6. Deleting a user deletes that user and every chat message whose sender or
  receiver the user is, and no other row: the messages left are those with another
  sender and another receiver, every farmer, order and review is still there (under
  its identifier, in its place), and the products, the payments and the two
  association tables are as they were.
\<close>

theorem delete_user_deletes_messages_only:
  "db_chat_message (delete_User uid db) =
     filter (\<lambda>m. ChatMessage_sender_id m \<noteq> Some uid \<and> ChatMessage_receiver_id m \<noteq> Some uid)
       (db_chat_message db)
   \<and> db_user (delete_User uid db) = filter (\<lambda>u. User_id u \<noteq> Some uid) (db_user db)
   \<and> map Farmer_id (db_farmer (delete_User uid db)) = map Farmer_id (db_farmer db)
   \<and> map Order_id (db_order (delete_User uid db)) = map Order_id (db_order db)
   \<and> map Reviews_id (db_reviews (delete_User uid db)) = map Reviews_id (db_reviews db)
   \<and> db_product (delete_User uid db) = db_product db
   \<and> db_payment (delete_User uid db) = db_payment db
   \<and> db_association_order_product (delete_User uid db) = db_association_order_product db
   \<and> db_association_product_review (delete_User uid db) = db_association_product_review db"
  by (simp add: delete_User_def delete_children_def cascades_delete_def User_farmer_def
      User_orders_def User_reviews_def User_sent_messages_def User_received_messages_def
      default_cascade_def conj_commute)

end
